theory Spec2Isabelle
  imports Main
begin

section \<open>Strings and bytes\<close>

text \<open>
  A Go \<^verbatim>\<open>string\<close> is a sequence of bytes; it is modelled as \<^typ>\<open>string\<close>, a list of
  8-bit characters. \<open>byte_of\<close> reads a character as the number the Go code compares and
  subtracts, \<open>char_of_byte\<close> goes back.
\<close>

definition byte_of :: "char \<Rightarrow> int" where
  "byte_of c = of_char c"

definition char_of_byte :: "int \<Rightarrow> char" where
  "char_of_byte n = char_of n"

text \<open>
  A Go slice of strings is either \<^verbatim>\<open>nil\<close> or a (possibly empty) sequence: the two are
  told apart by \<^verbatim>\<open>encoding/json\<close>, so the model keeps them apart.
\<close>

datatype strings = NilSlice | Slice "string list"

section \<open>The library calls of NewTLSReport\<close>

subsection \<open>strconv.Atoi\<close>

text \<open>
  \<^verbatim>\<open>strconv.Atoi\<close> of the Go standard library, on a platform whose \<^verbatim>\<open>int\<close> has 64 bits.
  It returns a value and an error; the error is \<^verbatim>\<open>ErrSyntax\<close> or \<^verbatim>\<open>ErrRange\<close>.
  Strings of 1 to 18 bytes take the fast path (\<open>atoi_loop\<close>); every other string goes
  through \<^verbatim>\<open>ParseInt(s, 10, 0)\<close> and \<^verbatim>\<open>ParseUint\<close>, whose loop stops at the first digit that
  overflows 64 bits, before it has looked at the rest of the string.
\<close>

datatype NumErr = ErrSyntax | ErrRange

text \<open>\<^verbatim>\<open>lower(c)\<close> is \<^verbatim>\<open>c | ('x' - 'X')\<close>.\<close>

definition lower :: "int \<Rightarrow> int" where
  "lower c = or c 32"

definition maxUint64 :: int where
  "maxUint64 = 2 ^ 64 - 1"

text \<open>
  The loop of \<^verbatim>\<open>ParseUint\<close> for base 10 and bit size 64: \<open>n\<close> is the \<^verbatim>\<open>uint64\<close>
  accumulator, \<^verbatim>\<open>cutoff\<close> is \<^verbatim>\<open>maxUint64/10 + 1\<close> and \<^verbatim>\<open>maxVal\<close> is \<^verbatim>\<open>1<<64 - 1\<close>. The
  addition \<^verbatim>\<open>n1 := n + uint64(d)\<close> wraps around, which the test \<^verbatim>\<open>n1 < n\<close> detects.
\<close>

fun parseUint_loop :: "int \<Rightarrow> string \<Rightarrow> int \<times> NumErr option" where
  "parseUint_loop n [] = (n, None)"
| "parseUint_loop n (ch # s) =
     (let c = byte_of ch;
          digit = (if 48 \<le> c \<and> c \<le> 57 then Some (c - 48)
                   else if 97 \<le> lower c \<and> lower c \<le> 122 then Some (lower c - 97 + 10)
                   else None)
      in case digit of
           None \<Rightarrow> (0, Some ErrSyntax)
         | Some d \<Rightarrow>
             if d \<ge> 10 then (0, Some ErrSyntax)
             else if n \<ge> maxUint64 div 10 + 1 then (maxUint64, Some ErrRange)
             else let n10 = n * 10; n1 = (n10 + d) mod 2 ^ 64
                  in if n1 < n10 \<or> n1 > maxUint64 then (maxUint64, Some ErrRange)
                     else parseUint_loop n1 s)"

definition strconv_ParseUint :: "string \<Rightarrow> int \<times> NumErr option" where
  "strconv_ParseUint s = (if s = [] then (0, Some ErrSyntax) else parseUint_loop 0 s)"

text \<open>\<^verbatim>\<open>int64(un)\<close> and the negation \<^verbatim>\<open>-n\<close> of an \<^verbatim>\<open>int64\<close>, with their wrap-around.\<close>

definition int64 :: "int \<Rightarrow> int" where
  "int64 u = (let v = u mod 2 ^ 64 in if v < 2 ^ 63 then v else v - 2 ^ 64)"

definition neg64 :: "int \<Rightarrow> int" where
  "neg64 n = (if n = - (2 ^ 63) then n else - n)"

definition strconv_ParseInt :: "string \<Rightarrow> int \<times> NumErr option" where
  "strconv_ParseInt s0 =
     (case s0 of
        [] \<Rightarrow> (0, Some ErrSyntax)
      | c # rest \<Rightarrow>
          (let neg = (c = CHR ''-'');
               s = (if c = CHR ''+'' \<or> c = CHR ''-'' then rest else s0);
               (un, err) = strconv_ParseUint s;
               cutoff = (2::int) ^ 63
           in if err \<noteq> None \<and> err \<noteq> Some ErrRange then (0, err)
              else if \<not> neg \<and> un \<ge> cutoff then (int64 (cutoff - 1), Some ErrRange)
              else if neg \<and> un > cutoff then (neg64 (int64 cutoff), Some ErrRange)
              else (if neg then neg64 (int64 un) else int64 un, None)))"

text \<open>The fast path: \<^verbatim>\<open>ch -= '0'\<close> on a byte wraps around, so \<^verbatim>\<open>ch > 9\<close> holds for
  every byte that is not a decimal digit.\<close>

fun atoi_loop :: "int \<Rightarrow> string \<Rightarrow> int option" where
  "atoi_loop n [] = Some n"
| "atoi_loop n (c # s) =
     (let ch = (byte_of c + 256 - 48) mod 256
      in if ch > 9 then None else atoi_loop (n * 10 + ch) s)"

definition strconv_Atoi :: "string \<Rightarrow> int \<times> NumErr option" where
  "strconv_Atoi s0 =
     (if 0 < length s0 \<and> length s0 < 19 then
        (let signed = (hd s0 = CHR ''-'' \<or> hd s0 = CHR ''+'');
             s = (if signed then tl s0 else s0)
         in if signed \<and> length s < 1 then (0, Some ErrSyntax)
            else case atoi_loop 0 s of
                   None \<Rightarrow> (0, Some ErrSyntax)
                 | Some n \<Rightarrow> (if hd s0 = CHR ''-'' then - n else n, None))
      else strconv_ParseInt s0)"

subsection \<open>time.Now, Time.Add and Time.Format\<close>

text \<open>
  A \<^verbatim>\<open>time.Time\<close> is an instant (nanoseconds since the Unix epoch) with a location; the
  location gives the offset from UTC, in seconds, in effect at a Unix second. The clock
  reading \<^verbatim>\<open>time.Now()\<close> is an input of the model.
\<close>

record Time =
  unixNano :: int
  zoneOffset :: "int \<Rightarrow> int"

definition Second :: int where
  "Second = 1000000000"

definition time_Add :: "Time \<Rightarrow> int \<Rightarrow> Time" where
  "time_Add t d = t\<lparr>unixNano := unixNano t + d\<rparr>"

text \<open>The decimal digits of a number that is not negative.\<close>

function decimal :: "int \<Rightarrow> string" where
  "decimal n = (if n < 10 then [char_of_byte (48 + n)]
                else decimal (n div 10) @ [char_of_byte (48 + n mod 10)])"
  by pat_completeness auto
termination
  by (relation "measure nat") auto

declare decimal.simps [simp del]

text \<open>\<^verbatim>\<open>appendInt(b, x, width)\<close> of package \<^verbatim>\<open>time\<close>: a sign, zero padding, the digits.\<close>

definition appendInt :: "int \<Rightarrow> nat \<Rightarrow> string" where
  "appendInt x width =
     (let ds = decimal \<bar>x\<bar>
      in (if x < 0 then ''-'' else '''') @ replicate (width - length ds) (CHR ''0'') @ ds)"

text \<open>The proleptic Gregorian date of a day number (days since 1970-01-01).\<close>

definition civil_from_days :: "int \<Rightarrow> int \<times> int \<times> int" where
  "civil_from_days days =
     (let z = days + 719468;
          era = z div 146097;
          doe = z - era * 146097;
          yoe = (doe - doe div 1460 + doe div 36524 - doe div 146096) div 365;
          doy = doe - (365 * yoe + yoe div 4 - yoe div 100);
          mp = (5 * doy + 2) div 153;
          d = doy - (153 * mp + 2) div 5 + 1;
          m = (if mp < 10 then mp + 3 else mp - 9);
          y = yoe + era * 400 + (if m \<le> 2 then 1 else 0)
      in (y, m, d))"

text \<open>Go's integer division truncates towards zero.\<close>

definition quo :: "int \<Rightarrow> int \<Rightarrow> int" where
  "quo a b = sgn a * sgn b * (\<bar>a\<bar> div \<bar>b\<bar>)"

text \<open>
  \<^verbatim>\<open>t.Format(time.RFC3339)\<close>, layout \<^verbatim>\<open>2006-01-02T15:04:05Z07:00\<close>: the zone is \<^verbatim>\<open>Z\<close> at
  offset 0 and a signed \<^verbatim>\<open>hh:mm\<close> otherwise.
\<close>

definition format_zone :: "int \<Rightarrow> string" where
  "format_zone offset =
     (if offset = 0 then ''Z''
      else let zone = quo offset 60
           in (if zone < 0 then ''-'' else ''+'') @
              appendInt (\<bar>zone\<bar> div 60) 2 @ '':'' @ appendInt (\<bar>zone\<bar> mod 60) 2)"

definition time_Format_RFC3339 :: "Time \<Rightarrow> string" where
  "time_Format_RFC3339 t =
     (let sec = unixNano t div 1000000000;
          offset = zoneOffset t sec;
          local = sec + offset;
          (y, m, d) = civil_from_days (local div 86400);
          r = local mod 86400
      in appendInt y 4 @ ''-'' @ appendInt m 2 @ ''-'' @ appendInt d 2 @ ''T'' @
         appendInt (r div 3600) 2 @ '':'' @ appendInt (r mod 3600 div 60) 2 @ '':'' @
         appendInt (r mod 60) 2 @ format_zone offset)"

section \<open>TLSReport and NewTLSReport\<close>

record TLSReport =
  DateTime :: string
  Hostname :: string
  Port :: int
  EffectiveExpirationDate :: string
  IncludeSubdomains :: bool
  NotedHostname :: string
  ServedCertificateChain :: strings
  ValidatedCertificateChain :: strings
  KnownPins :: strings
  AppVersion :: string

text \<open>
  \<^verbatim>\<open>NewTLSReport(host, port, server, certChain, knownPins, appVersion)\<close>; the first
  argument of the model is the reading of \<^verbatim>\<open>time.Now()\<close>. The composite literal names
  nine of the ten fields; \<^verbatim>\<open>DateTime\<close> is not among them and keeps the zero value of its
  type, the empty string.
\<close>

definition NewTLSReport ::
  "Time \<Rightarrow> string \<Rightarrow> string \<Rightarrow> string \<Rightarrow> strings \<Rightarrow> strings \<Rightarrow> string \<Rightarrow> TLSReport" where
  "NewTLSReport now host port server certChain knownPins appVersion =
     (let intPort = fst (strconv_Atoi port)
      in \<lparr> DateTime = '''',
           Hostname = host,
           Port = intPort,
           EffectiveExpirationDate =
             time_Format_RFC3339 (time_Add now (365 * 24 * 60 * 60 * Second)),
           IncludeSubdomains = False,
           NotedHostname = server,
           ServedCertificateChain = certChain,
           ValidatedCertificateChain = Slice [],
           KnownPins = knownPins,
           AppVersion = appVersion \<rparr>)"

subsection \<open>Port strings, in the words of the specification\<close>

text \<open>
  What the specification calls a port string that parses as an integer: an optional sign
  followed by one or more decimal digits. \<open>leading_digits\<close> is the run of digits the
  string starts with (after the sign) and \<open>digits_value\<close> the number they denote.
\<close>

definition is_digit :: "char \<Rightarrow> bool" where
  "is_digit c = (48 \<le> byte_of c \<and> byte_of c \<le> 57)"

definition unsigned_part :: "string \<Rightarrow> string" where
  "unsigned_part s =
     (case s of [] \<Rightarrow> [] | c # rest \<Rightarrow> if c = CHR ''+'' \<or> c = CHR ''-'' then rest else s)"

definition decimal_numeral :: "string \<Rightarrow> bool" where
  "decimal_numeral s = (unsigned_part s \<noteq> [] \<and> list_all is_digit (unsigned_part s))"

definition digits_value :: "string \<Rightarrow> int" where
  "digits_value ds = foldl (\<lambda>n c. n * 10 + (byte_of c - 48)) 0 ds"

definition leading_digits :: "string \<Rightarrow> string" where
  "leading_digits s = takeWhile is_digit (unsigned_part s)"

text \<open>A clock reading used in the examples: 2020-11-02T06:53:20Z, in UTC.\<close>

definition example_now :: Time where
  "example_now = \<lparr> unixNano = 1604300000000000000, zoneOffset = (\<lambda>_. 0) \<rparr>"

text \<open>The double quote, for the strings that hold one.\<close>

definition dquote :: char where
  "dquote = CHR 0x22"

section \<open>postCertIssueReport\<close>

subsection \<open>net/http: headers, requests and responses\<close>

text \<open>A Go \<^verbatim>\<open>error\<close> is modelled by its message.\<close>

type_synonym error = string

text \<open>
  \<^verbatim>\<open>validHeaderFieldByte\<close>: the bytes of an HTTP token, that is letters, digits and
  fifteen punctuation marks, listed by their codes (the dash is 45).
\<close>

definition validHeaderFieldByte :: "char \<Rightarrow> bool" where
  "validHeaderFieldByte ch =
     (let b = byte_of ch
      in (48 \<le> b \<and> b \<le> 57) \<or> (65 \<le> b \<and> b \<le> 90) \<or> (97 \<le> b \<and> b \<le> 122) \<or>
         b \<in> set [33, 35, 36, 37, 38, 39, 42, 43, 45, 46, 94, 95, 96, 124, 126])"

text \<open>
  The loop of \<^verbatim>\<open>canonicalMIMEHeaderKey\<close>: the first letter and every letter after a dash
  in upper case, the other letters in lower case (\<^verbatim>\<open>toLower\<close> is \<^verbatim>\<open>'a' - 'A'\<close>).
\<close>

fun canonical_loop :: "bool \<Rightarrow> string \<Rightarrow> string" where
  "canonical_loop upper [] = []"
| "canonical_loop upper (ch # a) =
     (let c = byte_of ch;
          c' = (if upper \<and> 97 \<le> c \<and> c \<le> 122 then c - 32
                else if \<not> upper \<and> 65 \<le> c \<and> c \<le> 90 then c + 32
                else c)
      in char_of_byte c' # canonical_loop (c' = 45) a)"

text \<open>
  \<^verbatim>\<open>textproto.CanonicalMIMEHeaderKey\<close>: a key with a byte that is no token byte is
  returned unchanged, every other key in its canonical form.
\<close>

definition CanonicalMIMEHeaderKey :: "string \<Rightarrow> string" where
  "CanonicalMIMEHeaderKey s = (if list_all validHeaderFieldByte s then canonical_loop True s else s)"

text \<open>\<^verbatim>\<open>http.Header\<close> is a \<^verbatim>\<open>map[string][]string\<close>, with \<^verbatim>\<open>Add\<close>, \<^verbatim>\<open>Set\<close> and \<^verbatim>\<open>Get\<close>.\<close>

type_synonym Header = "string \<rightharpoonup> string list"

definition Header_Add :: "Header \<Rightarrow> string \<Rightarrow> string \<Rightarrow> Header" where
  "Header_Add h key v =
     (let k = CanonicalMIMEHeaderKey key
      in h(k \<mapsto> (case h k of None \<Rightarrow> [] | Some vs \<Rightarrow> vs) @ [v]))"

definition Header_Set :: "Header \<Rightarrow> string \<Rightarrow> string \<Rightarrow> Header" where
  "Header_Set h key v = h(CanonicalMIMEHeaderKey key \<mapsto> [v])"

definition Header_Get :: "Header \<Rightarrow> string \<Rightarrow> string" where
  "Header_Get h key =
     (case h (CanonicalMIMEHeaderKey key) of
        None \<Rightarrow> ''''
      | Some [] \<Rightarrow> ''''
      | Some (v # vs) \<Rightarrow> v)"

record Request =
  Method :: string
  URL :: string
  Header :: Header
  Body :: string

record Response =
  StatusCode :: int
  res_Body :: string

definition http_StatusOK :: int where
  "http_StatusOK = 200"

text \<open>
  \<^verbatim>\<open>http.NewRequest(method, url, body)\<close>: an empty method means \<^verbatim>\<open>GET\<close>, a method that is
  no token is refused, and so is a URL that \<^verbatim>\<open>url.Parse\<close> refuses; the request it returns
  has the method, the URL and the body it was given and an empty header map. What
  \<^verbatim>\<open>url.Parse\<close> refuses is an input of the model.
\<close>

definition validMethod :: "string \<Rightarrow> bool" where
  "validMethod method = (0 < length method \<and> list_all validHeaderFieldByte method)"

definition http_NewRequest ::
  "(string \<Rightarrow> error option) \<Rightarrow> string \<Rightarrow> string \<Rightarrow> string \<Rightarrow> error + Request" where
  "http_NewRequest url_Parse method0 url body =
     (let method = (if method0 = '''' then ''GET'' else method0)
      in if \<not> validMethod method then Inl (''net/http: invalid method '' @ method)
         else case url_Parse url of
                Some err \<Rightarrow> Inl err
              | None \<Rightarrow> Inr \<lparr> Method = method, URL = url, Header = Map.empty, Body = body \<rparr>)"

text \<open>\<^verbatim>\<open>strconv.Itoa\<close>.\<close>

definition strconv_Itoa :: "int \<Rightarrow> string" where
  "strconv_Itoa i = (if i < 0 then ''-'' @ decimal (- i) else decimal i)"

subsection \<open>The outside world and the effects of a call\<close>

text \<open>
  The calls whose outcome the code tests: \<^verbatim>\<open>json.Marshal(report)\<close>, \<^verbatim>\<open>url.Parse\<close> inside
  \<^verbatim>\<open>http.NewRequest\<close>, and \<^verbatim>\<open>Do(req)\<close> of a fresh \<^verbatim>\<open>http.Client\<close>. Each returns a value or an error.
\<close>

record Lib =
  json_Marshal :: "TLSReport \<Rightarrow> error + string"
  url_Parse :: "string \<Rightarrow> error option"
  client_Do :: "Request \<Rightarrow> error + Response"

text \<open>
  \<^verbatim>\<open>postCertIssueReport\<close> returns nothing; what it does is the sequence of its effects: the
  log entries (\<^verbatim>\<open>logrus.WithField(key, value)\<close> or \<^verbatim>\<open>WithError(err)\<close>, which is
  \<^verbatim>\<open>WithField("error", err)\<close>, then \<^verbatim>\<open>Warn\<close> or \<^verbatim>\<open>Error\<close> with a message), the request it
  hands to the HTTP client, and the reading and closing of the response body.
\<close>

datatype level = WarnLevel | ErrorLevel

datatype field_value =
    ErrorValue error
  | RequestValue Request
  | ResponseValue Response
  | IntValue int

datatype event =
    Log level string field_value string
  | Do Request
  | ReadAll Response
  | Close Response

definition TLSReportURI :: string where
  "TLSReportURI = ''https://reports.protonmail.ch/reports/tls''"

text \<open>The four header assignments of \<^verbatim>\<open>postCertIssueReport\<close>, in the order of the code.\<close>

definition set_headers :: "int \<Rightarrow> TLSReport \<Rightarrow> string \<Rightarrow> Request \<Rightarrow> Request" where
  "set_headers Version report userAgent req =
     (let h1 = Header_Add (Header req) ''Content-Type'' ''application/json'';
          h2 = Header_Set h1 ''User-Agent'' userAgent;
          h3 = Header_Set h2 ''x-pm-apiversion'' (strconv_Itoa Version);
          h4 = Header_Set h3 ''x-pm-appversion'' (AppVersion report)
      in req\<lparr>Header := h4\<rparr>)"

text \<open>
  \<^verbatim>\<open>postCertIssueReport(report, userAgent)\<close>. \<open>Version\<close> is the constant \<^verbatim>\<open>Version\<close> of
  package \<^verbatim>\<open>pmapi\<close>, declared outside this file.
\<close>

definition postCertIssueReport :: "int \<Rightarrow> Lib \<Rightarrow> TLSReport \<Rightarrow> string \<Rightarrow> event list" where
  "postCertIssueReport Version lib report userAgent =
     (case json_Marshal lib report of
        Inl err \<Rightarrow> [Log ErrorLevel ''error'' (ErrorValue err) ''Failed to marshal TLS report'']
      | Inr b \<Rightarrow>
          (case http_NewRequest (url_Parse lib) ''POST'' TLSReportURI b of
             Inl err \<Rightarrow> [Log ErrorLevel ''error'' (ErrorValue err) ''Failed to create http request'']
           | Inr req0 \<Rightarrow>
               (let req = set_headers Version report userAgent req0
                in Log WarnLevel ''request'' (RequestValue req) ''Reporting TLS mismatch'' #
                   Do req #
                   (case client_Do lib req of
                      Inl err \<Rightarrow>
                        [Log ErrorLevel ''error'' (ErrorValue err) ''Failed to report TLS mismatch'']
                    | Inr res \<Rightarrow>
                        Log ErrorLevel ''response'' (ResponseValue res) ''Reported TLS mismatch'' #
                        (if StatusCode res \<noteq> http_StatusOK
                         then [Log ErrorLevel ''status'' (IntValue http_StatusOK)
                                 ''StatusCode was not OK'']
                         else []) @
                        [ReadAll res, Close res]))))"

text \<open>The request that \<^verbatim>\<open>postCertIssueReport\<close> builds from the bytes of the report.\<close>

definition report_request :: "int \<Rightarrow> TLSReport \<Rightarrow> string \<Rightarrow> string \<Rightarrow> Request" where
  "report_request Version report userAgent b =
     set_headers Version report userAgent
       \<lparr> Method = ''POST'', URL = TLSReportURI, Header = Map.empty, Body = b \<rparr>"

text \<open>Worlds for the examples: each call fails in one of them.\<close>

definition lib_marshal_fails :: Lib where
  "lib_marshal_fails =
     \<lparr> json_Marshal = (\<lambda>_. Inl ''json: unsupported value''),
       url_Parse = (\<lambda>_. None),
       client_Do = (\<lambda>_. Inl ''unreachable'') \<rparr>"

definition lib_request_fails :: Lib where
  "lib_request_fails =
     \<lparr> json_Marshal = (\<lambda>_. Inr ''{}''),
       url_Parse = (\<lambda>_. Some ''parse: invalid URL''),
       client_Do = (\<lambda>_. Inl ''unreachable'') \<rparr>"

definition lib_transport_fails :: Lib where
  "lib_transport_fails =
     \<lparr> json_Marshal = (\<lambda>_. Inr ''{}''),
       url_Parse = (\<lambda>_. None),
       client_Do = (\<lambda>_. Inl ''dial tcp: connection refused'') \<rparr>"

definition lib_responds :: "int \<Rightarrow> Lib" where
  "lib_responds status =
     \<lparr> json_Marshal = (\<lambda>_. Inr ''{}''),
       url_Parse = (\<lambda>_. None),
       client_Do = (\<lambda>_. Inr \<lparr> StatusCode = status, res_Body = ''body'' \<rparr>) \<rparr>"

definition example_report :: TLSReport where
  "example_report =
     NewTLSReport example_now ''mail.example.com'' ''443'' ''example.com''
       (Slice [''PEM1'']) (Slice [''pin-sha256='' @ [dquote] @ ''AAA='' @ [dquote]]) ''1.0.0''"

text \<open>
  What a caller or a test can observe in the effects: the requests handed to the client,
  what was done with response bodies, and the values logged under a key.
\<close>

fun sent :: "event list \<Rightarrow> Request list" where
  "sent [] = []"
| "sent (Do req # es) = req # sent es"
| "sent (e # es) = sent es"

fun body_events :: "event list \<Rightarrow> event list" where
  "body_events [] = []"
| "body_events (ReadAll res # es) = ReadAll res # body_events es"
| "body_events (Close res # es) = Close res # body_events es"
| "body_events (e # es) = body_events es"

fun logged :: "string \<Rightarrow> event list \<Rightarrow> field_value list" where
  "logged key [] = []"
| "logged key (Log l k v m # es) = (if k = key then v # logged key es else logged key es)"
| "logged key (e # es) = logged key es"

section \<open>encoding/json\<close>

subsection \<open>unicode/utf8\<close>








subsection \<open>json.Marshal of a TLSReport\<close>















subsection \<open>json.Unmarshal into a TLSReport\<close>

text \<open>
  \<^verbatim>\<open>json.Unmarshal\<close> first checks that its input is one JSON value (the scanner), then
  stores the value into the struct. The model reads the text into a tree, which keeps
  what the second pass looks at: the literal text of a number and the unquoted bytes of a
  string.
\<close>

datatype json =
    JNull
  | JBool bool
  | JNumber string
  | JString string
  | JArray "json list"
  | JObject "(string \<times> json) list"
















definition upper :: "int \<Rightarrow> int" where
  "upper b = (if 97 \<le> b \<and> b \<le> 122 then b - 32 else b)"



















subsection \<open>The round trip, in the words of the specification\<close>












section \<open>Properties of strconv.Atoi\<close>

lemma byte_of_range: "0 \<le> byte_of c \<and> byte_of c < 256"
  unfolding byte_of_def
  by (cases c) (simp add: of_char_def)

lemma parseUint_loop_nondigit:
  "\<not> is_digit c \<Longrightarrow> parseUint_loop n (c # rest) = (0, Some ErrSyntax)"
  by (auto simp add: is_digit_def Let_def)

lemma foldl_digits_mono:
  "list_all is_digit ds \<Longrightarrow> 0 \<le> n \<Longrightarrow> n \<le> foldl (\<lambda>n c. n * 10 + (byte_of c - 48)) n ds"
proof (induction ds arbitrary: n)
  case Nil
  then show ?case by simp
next
  case (Cons d ds)
  have d: "48 \<le> byte_of d" "byte_of d \<le> 57"
    using Cons.prems(1) by (simp_all add: is_digit_def)
  have "n \<le> n * 10 + (byte_of d - 48)"
    using Cons.prems(2) d by simp
  moreover have "n * 10 + (byte_of d - 48)
      \<le> foldl (\<lambda>n c. n * 10 + (byte_of c - 48)) (n * 10 + (byte_of d - 48)) ds"
    using Cons.IH Cons.prems d by simp
  ultimately show ?case by simp
qed

text \<open>
  The loop of \<^verbatim>\<open>ParseUint\<close> reports a syntax error when it meets a byte that is no digit
  before the digits it has read overflow 64 bits.
\<close>

lemma parseUint_loop_syntax:
  "list_all is_digit ds \<Longrightarrow> \<not> is_digit c \<Longrightarrow> 0 \<le> n \<Longrightarrow>
   foldl (\<lambda>n c. n * 10 + (byte_of c - 48)) n ds < 2 ^ 64 \<Longrightarrow>
   parseUint_loop n (ds @ c # rest) = (0, Some ErrSyntax)"
proof (induction ds arbitrary: n)
  case Nil
  then show ?case using parseUint_loop_nondigit by simp
next
  case (Cons d ds)
  let ?n1 = "n * 10 + (byte_of d - 48)"
  have d: "48 \<le> byte_of d" "byte_of d \<le> 57"
    using Cons.prems(1) by (simp_all add: is_digit_def)
  have ds: "list_all is_digit ds"
    using Cons.prems(1) by simp
  have n1: "0 \<le> ?n1"
    using Cons.prems(3) d by simp
  have "?n1 \<le> foldl (\<lambda>n c. n * 10 + (byte_of c - 48)) ?n1 ds"
    by (rule foldl_digits_mono [OF ds n1])
  then have lt: "?n1 < 2 ^ 64"
    using Cons.prems(4) by simp
  have IH: "parseUint_loop ?n1 (ds @ c # rest) = (0, Some ErrSyntax)"
    using Cons.IH [OF ds Cons.prems(2) n1] Cons.prems(4) by simp
  have cut: "\<not> n \<ge> maxUint64 div 10 + 1"
    using lt d Cons.prems(3) by (simp add: maxUint64_def)
  have md: "?n1 mod 2 ^ 64 = ?n1"
    using lt n1 by simp
  show ?case
    using d cut md lt IH Cons.prems(3) by (simp add: Let_def maxUint64_def)
qed

lemma byte_sub_digit:
  assumes "48 \<le> (b::int)" and "b < 256"
  shows "(b + 256 - 48) mod 256 = b - 48"
proof -
  have "b + 256 - 48 = (b - 48) + 256" by simp
  then have "(b + 256 - 48) mod 256 = (b - 48) mod 256" by (simp only: mod_add_self2)
  then show ?thesis using assms by simp
qed

lemma byte_sub_low:
  assumes "0 \<le> (b::int)" and "b < 48"
  shows "(b + 256 - 48) mod 256 = b + 208"
proof -
  have "b + 256 - 48 = b + 208" by simp
  then show ?thesis using assms by simp
qed

lemma atoi_loop_nondigit: "\<not> list_all is_digit s \<Longrightarrow> atoi_loop n s = None"
proof (induction s arbitrary: n)
  case Nil
  then show ?case by simp
next
  case (Cons c s)
  show ?case
  proof (cases "is_digit c")
    case True
    then have "(byte_of c + 256 - 48) mod 256 = byte_of c - 48"
      using byte_sub_digit [of "byte_of c"] byte_of_range [of c] by (simp add: is_digit_def)
    then show ?thesis using True Cons by (simp add: Let_def is_digit_def)
  next
    case False
    have "(byte_of c + 256 - 48) mod 256 > 9"
    proof (cases "byte_of c < 48")
      case True
      then have "(byte_of c + 256 - 48) mod 256 = byte_of c + 208"
        using byte_sub_low [of "byte_of c"] byte_of_range [of c] by simp
      then show ?thesis using byte_of_range [of c] by simp
    next
      case ge: False
      then have "(byte_of c + 256 - 48) mod 256 = byte_of c - 48"
        using byte_sub_digit [of "byte_of c"] byte_of_range [of c] by simp
      then show ?thesis using False ge by (simp add: is_digit_def)
    qed
    then show ?thesis by (simp add: Let_def)
  qed
qed

lemma Atoi_fast_signed:
  "c = CHR ''-'' \<or> c = CHR ''+'' \<Longrightarrow> length rest < 18 \<Longrightarrow>
   strconv_Atoi (c # rest) =
     (if rest = [] then (0, Some ErrSyntax)
      else case atoi_loop 0 rest of
             None \<Rightarrow> (0, Some ErrSyntax)
           | Some n \<Rightarrow> (if c = CHR ''-'' then - n else n, None))"
  unfolding strconv_Atoi_def by (auto simp add: Let_def split: option.splits)

lemma Atoi_fast_unsigned:
  "\<not> (c = CHR ''-'' \<or> c = CHR ''+'') \<Longrightarrow> length rest < 18 \<Longrightarrow>
   strconv_Atoi (c # rest) =
     (case atoi_loop 0 (c # rest) of
        None \<Rightarrow> (0, Some ErrSyntax)
      | Some n \<Rightarrow> (n, None))"
  unfolding strconv_Atoi_def
  by (auto simp add: Let_def simp del: atoi_loop.simps split: option.splits)

lemma Atoi_slow:
  "\<not> (0 < length s0 \<and> length s0 < 19) \<Longrightarrow> strconv_Atoi s0 = strconv_ParseInt s0"
  unfolding strconv_Atoi_def by (simp only: if_False)

lemma ParseInt_syntax:
  "strconv_ParseUint (unsigned_part s0) = (0, Some ErrSyntax) \<Longrightarrow>
   strconv_ParseInt s0 = (0, Some ErrSyntax)"
  unfolding strconv_ParseInt_def unsigned_part_def
  by (cases s0) (auto simp add: Let_def)

lemma ParseUint_syntax:
  assumes "\<not> decimal_numeral port" and "digits_value (leading_digits port) < 2 ^ 64"
  shows "strconv_ParseUint (unsigned_part port) = (0, Some ErrSyntax)"
proof (cases "unsigned_part port = []")
  case True
  then show ?thesis by (simp add: strconv_ParseUint_def)
next
  case ne: False
  then have nd: "\<not> list_all is_digit (unsigned_part port)"
    using assms(1) by (simp add: decimal_numeral_def)
  define ds where "ds = takeWhile is_digit (unsigned_part port)"
  define tail where "tail = dropWhile is_digit (unsigned_part port)"
  have split: "unsigned_part port = ds @ tail"
    by (simp add: ds_def tail_def)
  have "tail \<noteq> []"
    using nd by (auto simp: tail_def list_all_iff)
  then obtain c rest where tail: "tail = c # rest"
    by (cases tail) auto
  have c: "\<not> is_digit c"
    using tail hd_dropWhile [of is_digit "unsigned_part port"] by (simp add: tail_def)
  have dsd: "list_all is_digit ds"
    by (auto simp: ds_def list_all_iff dest: set_takeWhileD)
  have "foldl (\<lambda>n c. n * 10 + (byte_of c - 48)) 0 ds < 2 ^ 64"
    using assms(2) by (simp add: digits_value_def leading_digits_def ds_def)
  then have "parseUint_loop 0 (ds @ c # rest) = (0, Some ErrSyntax)"
    using parseUint_loop_syntax [OF dsd c, of 0 rest] by simp
  then show ?thesis
    using ne split tail by (simp add: strconv_ParseUint_def)
qed

text \<open>
  \<^verbatim>\<open>Atoi\<close> returns 0 and a syntax error for every string that is no decimal numeral,
  unless the digits it starts with already overflow 64 bits.
\<close>

lemma Atoi_syntax:
  assumes "\<not> decimal_numeral port" and "digits_value (leading_digits port) < 2 ^ 64"
  shows "strconv_Atoi port = (0, Some ErrSyntax)"
proof (cases "0 < length port \<and> length port < 19")
  case True
  then obtain c rest where port: "port = c # rest" and len: "length rest < 18"
    by (cases port) auto
  show ?thesis
  proof (cases "c = CHR ''-'' \<or> c = CHR ''+''")
    case signed: True
    then have u: "unsigned_part port = rest"
      by (auto simp: unsigned_part_def port)
    show ?thesis
    proof (cases "rest = []")
      case True
      then show ?thesis
        unfolding port Atoi_fast_signed [OF signed len] by simp
    next
      case False
      then have "\<not> list_all is_digit rest"
        using assms(1) u by (simp add: decimal_numeral_def)
      then have "atoi_loop 0 rest = None"
        by (rule atoi_loop_nondigit)
      then show ?thesis
        unfolding port Atoi_fast_signed [OF signed len] by simp
    qed
  next
    case unsigned: False
    then have u: "unsigned_part port = port"
      by (auto simp: unsigned_part_def port)
    then have "\<not> list_all is_digit port"
      using assms(1) port by (simp add: decimal_numeral_def)
    then have "atoi_loop 0 (c # rest) = None"
      unfolding port by (rule atoi_loop_nondigit)
    then show ?thesis
      unfolding port Atoi_fast_unsigned [OF unsigned len] by simp
  qed
next
  case False
  then have "strconv_Atoi port = strconv_ParseInt port"
    by (rule Atoi_slow)
  then show ?thesis
    using ParseInt_syntax [OF ParseUint_syntax [OF assms]] by simp
qed

lemma decimal_not_Nil: "decimal n \<noteq> []"
  by (subst decimal.simps) simp

lemma appendInt_not_Nil: "appendInt x w \<noteq> []"
  unfolding appendInt_def Let_def using decimal_not_Nil [of "\<bar>x\<bar>"] by simp

lemma time_Format_RFC3339_not_Nil: "time_Format_RFC3339 t \<noteq> []"
proof -
  obtain y m d where "civil_from_days
      ((unixNano t div 1000000000 + zoneOffset t (unixNano t div 1000000000)) div 86400)
      = (y, m, d)"
    using prod_cases3 by blast
  then obtain rest where "time_Format_RFC3339 t = appendInt y 4 @ rest"
    unfolding time_Format_RFC3339_def Let_def by (simp only: prod.case)
  then show ?thesis
    using appendInt_not_Nil [of y 4] by simp
qed

section \<open>Properties of NewTLSReport\<close>

text \<open>
  C1. The report of \<^verbatim>\<open>NewTLSReport\<close> should carry the current time in \<^verbatim>\<open>DateTime\<close>. In the
  code the field is never assigned: for every input it is the empty string, which is the
  rendering of no time at all.
\<close>

theorem NewTLSReport_DateTime_unset:
  "DateTime (NewTLSReport now host port server certChain knownPins appVersion) = '''' \<and>
   DateTime (NewTLSReport now host port server certChain knownPins appVersion)
     \<noteq> time_Format_RFC3339 t"
  using time_Format_RFC3339_not_Nil [of t] by (simp add: NewTLSReport_def)

text \<open>
  C2. \<^verbatim>\<open>NewTLSReport\<close> is total, and \<^verbatim>\<open>EffectiveExpirationDate\<close> is the rendering of the
  clock reading plus 365 * 24 * 3600 seconds; but \<^verbatim>\<open>DateTime\<close> is empty, so the report
  does not hold two times that are 365 days apart. At 2020-11-02T06:53:20Z the expiry is
  2021-11-02T06:53:20Z and the observation time is missing.
\<close>

theorem NewTLSReport_expiry_without_DateTime:
  "EffectiveExpirationDate (NewTLSReport now host port server certChain knownPins appVersion)
     = time_Format_RFC3339 (now\<lparr>unixNano := unixNano now + 31536000 * 1000000000\<rparr>) \<and>
   EffectiveExpirationDate
     (NewTLSReport example_now ''mail.example.com'' ''443'' ''example.com''
        (Slice [''PEM1'']) NilSlice ''1.0.0'') = ''2021-11-02T06:53:20Z'' \<and>
   DateTime
     (NewTLSReport example_now ''mail.example.com'' ''443'' ''example.com''
        (Slice [''PEM1'']) NilSlice ''1.0.0'') = ''''"
proof -
  have "time_Format_RFC3339 \<lparr>unixNano = 1635836000000000000, zoneOffset = (\<lambda>_. 0)\<rparr>
      = ''2021-11-02T06:53:20Z''"
    by code_simp
  then show ?thesis
    by (simp add: NewTLSReport_def time_Add_def Second_def example_now_def)
qed

text \<open>
  C4, as the specification states it: a port string that does not parse as an integer
  gives port 0. The string below is no numeral and \<^verbatim>\<open>Atoi\<close> rejects it, yet the port of
  the report is 9223372036854775807: \<^verbatim>\<open>ParseUint\<close> stops with a range error at the
  twentieth digit, before it reaches the \<^verbatim>\<open>x\<close>, and the code ignores the error.
\<close>

theorem NewTLSReport_port_overflow_counterexample:
  "\<not> decimal_numeral ''99999999999999999999x'' \<and>
   snd (strconv_Atoi ''99999999999999999999x'') = Some ErrRange \<and>
   Port (NewTLSReport example_now ''mail.example.com'' ''99999999999999999999x''
           ''example.com'' (Slice [''PEM1'']) NilSlice ''1.0.0'') = 9223372036854775807 \<and>
   Port (NewTLSReport example_now ''mail.example.com'' ''99999999999999999999x''
           ''example.com'' (Slice [''PEM1'']) NilSlice ''1.0.0'') \<noteq> 0"
proof -
  have a: "strconv_Atoi ''99999999999999999999x'' = (9223372036854775807, Some ErrRange)"
    by code_simp
  have b: "\<not> decimal_numeral ''99999999999999999999x''"
    by code_simp
  show ?thesis
    using a b by (simp add: NewTLSReport_def)
qed

text \<open>
  C4, amended: a port string that is no decimal numeral, and whose leading digits do not
  overflow 64 bits, gives port 0, and \<^verbatim>\<open>Atoi\<close>'s syntax error is dropped. The function
  returns a report for every input: its result type has no error.
\<close>

theorem NewTLSReport_port_syntax_error:
  assumes "\<not> decimal_numeral port"
    and "digits_value (leading_digits port) < 2 ^ 64"
  shows "Port (NewTLSReport now host port server certChain knownPins appVersion) = 0 \<and>
         snd (strconv_Atoi port) = Some ErrSyntax"
  using Atoi_syntax [OF assms] by (simp add: NewTLSReport_def)

theorem NewTLSReport_port_syntax_error_witness:
  "\<not> decimal_numeral ''abc'' \<and>
   digits_value (leading_digits ''abc'') < 2 ^ 64 \<and>
   Port (NewTLSReport example_now ''mail.example.com'' ''abc'' ''example.com''
           (Slice [''PEM1'']) NilSlice ''1.0.0'') = 0 \<and>
   snd (strconv_Atoi ''abc'') = Some ErrSyntax"
proof -
  have h1: "\<not> decimal_numeral ''abc''"
    by code_simp
  have h2: "digits_value (leading_digits ''abc'') < 2 ^ 64"
    by code_simp
  show ?thesis
    using h1 h2 NewTLSReport_port_syntax_error [OF h1 h2] by simp
qed

text \<open>
  C5. For every input, each argument is copied unchanged into its field and the port
  field is what \<^verbatim>\<open>strconv.Atoi\<close> returns for the port string; subdomains are not included
  and the validated chain is empty. At the scenario of the specification the port string
  \<^verbatim>\<open>443\<close> parses without error to the number 443, so the report there has the eight
  field values the scenario lists, whatever the clock reads.
\<close>

theorem NewTLSReport_copies_arguments:
  "Hostname (NewTLSReport now host port server certChain knownPins appVersion) = host \<and>
   Port (NewTLSReport now host port server certChain knownPins appVersion)
     = fst (strconv_Atoi port) \<and>
   NotedHostname (NewTLSReport now host port server certChain knownPins appVersion) = server \<and>
   ServedCertificateChain (NewTLSReport now host port server certChain knownPins appVersion)
     = certChain \<and>
   KnownPins (NewTLSReport now host port server certChain knownPins appVersion) = knownPins \<and>
   AppVersion (NewTLSReport now host port server certChain knownPins appVersion)
     = appVersion \<and>
   IncludeSubdomains (NewTLSReport now host port server certChain knownPins appVersion)
     = False \<and>
   ValidatedCertificateChain (NewTLSReport now host port server certChain knownPins appVersion)
     = Slice [] \<and>
   strconv_Atoi ''443'' = (443, None) \<and>
   NewTLSReport now ''mail.example.com'' ''443'' ''example.com'' (Slice [''PEM1''])
      (Slice [''pin-sha256='' @ [dquote] @ ''AAA='' @ [dquote]]) ''1.0.0''
     = \<lparr> DateTime = '''',
         Hostname = ''mail.example.com'',
         Port = 443,
         EffectiveExpirationDate =
           time_Format_RFC3339 (time_Add now (365 * 24 * 60 * 60 * Second)),
         IncludeSubdomains = False,
         NotedHostname = ''example.com'',
         ServedCertificateChain = Slice [''PEM1''],
         ValidatedCertificateChain = Slice [],
         KnownPins = Slice [''pin-sha256='' @ [dquote] @ ''AAA='' @ [dquote]],
         AppVersion = ''1.0.0'' \<rparr>"
proof -
  have "strconv_Atoi ''443'' = (443, None)"
    by code_simp
  then show ?thesis
    by (simp add: NewTLSReport_def)
qed

text \<open>
  C9. For every input the report has \<^verbatim>\<open>IncludeSubdomains\<close> false and an empty, non-nil
  \<^verbatim>\<open>ValidatedCertificateChain\<close>.
\<close>

theorem NewTLSReport_fixed_fields:
  "IncludeSubdomains (NewTLSReport now host port server certChain knownPins appVersion) = False \<and>
   ValidatedCertificateChain (NewTLSReport now host port server certChain knownPins appVersion)
     = Slice []"
  by (simp add: NewTLSReport_def)

section \<open>Properties of postCertIssueReport\<close>

lemma validMethod_POST: "validMethod ''POST''"
  by code_simp

lemma http_NewRequest_POST:
  "http_NewRequest p ''POST'' url b =
     (case p url of
        Some err \<Rightarrow> Inl err
      | None \<Rightarrow> Inr \<lparr> Method = ''POST'', URL = url, Header = Map.empty, Body = b \<rparr>)"
  using validMethod_POST by (simp add: http_NewRequest_def)

lemma canonical_keys:
  "CanonicalMIMEHeaderKey ''Content-Type'' = ''Content-Type''"
  "CanonicalMIMEHeaderKey ''User-Agent'' = ''User-Agent''"
  "CanonicalMIMEHeaderKey ''x-pm-apiversion'' = ''X-Pm-Apiversion''"
  "CanonicalMIMEHeaderKey ''x-pm-appversion'' = ''X-Pm-Appversion''"
  by code_simp+

lemma Header_report_request:
  "Header (report_request v report ua b) =
     [''Content-Type'' \<mapsto> [''application/json''],
      ''User-Agent'' \<mapsto> [ua],
      ''X-Pm-Apiversion'' \<mapsto> [strconv_Itoa v],
      ''X-Pm-Appversion'' \<mapsto> [AppVersion report]]"
  by (simp add: report_request_def set_headers_def Header_Add_def Header_Set_def canonical_keys)

lemma report_request_fields:
  "Method (report_request v report ua b) = ''POST''"
  "URL (report_request v report ua b) = TLSReportURI"
  "Body (report_request v report ua b) = b"
  by (simp_all add: report_request_def set_headers_def)

text \<open>The four paths of \<^verbatim>\<open>postCertIssueReport\<close>, one equation each.\<close>

lemma post_marshal_error:
  "json_Marshal lib report = Inl err \<Longrightarrow>
   postCertIssueReport v lib report ua =
     [Log ErrorLevel ''error'' (ErrorValue err) ''Failed to marshal TLS report'']"
  by (simp add: postCertIssueReport_def)

lemma post_request_error:
  "json_Marshal lib report = Inr b \<Longrightarrow> url_Parse lib TLSReportURI = Some err \<Longrightarrow>
   postCertIssueReport v lib report ua =
     [Log ErrorLevel ''error'' (ErrorValue err) ''Failed to create http request'']"
  by (simp add: postCertIssueReport_def http_NewRequest_POST)

lemma post_transport_error:
  "json_Marshal lib report = Inr b \<Longrightarrow> url_Parse lib TLSReportURI = None \<Longrightarrow>
   client_Do lib (report_request v report ua b) = Inl err \<Longrightarrow>
   postCertIssueReport v lib report ua =
     [Log WarnLevel ''request'' (RequestValue (report_request v report ua b))
        ''Reporting TLS mismatch'',
      Do (report_request v report ua b),
      Log ErrorLevel ''error'' (ErrorValue err) ''Failed to report TLS mismatch'']"
  by (simp add: postCertIssueReport_def http_NewRequest_POST report_request_def Let_def)

lemma post_response:
  "json_Marshal lib report = Inr b \<Longrightarrow> url_Parse lib TLSReportURI = None \<Longrightarrow>
   client_Do lib (report_request v report ua b) = Inr res \<Longrightarrow>
   postCertIssueReport v lib report ua =
     [Log WarnLevel ''request'' (RequestValue (report_request v report ua b))
        ''Reporting TLS mismatch'',
      Do (report_request v report ua b),
      Log ErrorLevel ''response'' (ResponseValue res) ''Reported TLS mismatch''] @
     (if StatusCode res \<noteq> 200
      then [Log ErrorLevel ''status'' (IntValue 200) ''StatusCode was not OK'']
      else []) @
     [ReadAll res, Close res]"
  by (simp add: postCertIssueReport_def http_NewRequest_POST report_request_def
      http_StatusOK_def Let_def)

text \<open>Whatever happens, the only request that can be sent is the one built from the report.\<close>

lemma sent_postCertIssueReport:
  "sent (postCertIssueReport v lib report ua) =
     (case json_Marshal lib report of
        Inl err \<Rightarrow> []
      | Inr b \<Rightarrow>
          (case url_Parse lib TLSReportURI of
             Some err \<Rightarrow> []
           | None \<Rightarrow> [report_request v report ua b]))"
proof (cases "json_Marshal lib report")
  case (Inl err)
  then show ?thesis by (simp add: post_marshal_error)
next
  case (Inr b)
  show ?thesis
  proof (cases "url_Parse lib TLSReportURI")
    case (Some err)
    then show ?thesis using Inr by (simp add: post_request_error)
  next
    case None
    show ?thesis
    proof (cases "client_Do lib (report_request v report ua b)")
      case (Inl err)
      then show ?thesis using Inr None by (simp add: post_transport_error)
    next
      case res: (Inr res)
      then show ?thesis using Inr None by (simp add: post_response)
    qed
  qed
qed

lemma Do_in_set_sent: "Do req \<in> set es \<longleftrightarrow> req \<in> set (sent es)"
  by (induction es rule: sent.induct) auto

lemma byte_of_char_of_byte: "0 \<le> b \<Longrightarrow> b < 256 \<Longrightarrow> byte_of (char_of_byte b) = b"
  by (simp add: byte_of_def char_of_byte_def)

lemma decimal_digits: "0 \<le> n \<Longrightarrow> list_all is_digit (decimal n)"
proof (induction n rule: decimal.induct)
  case (1 n)
  show ?case
  proof (cases "n < 10")
    case True
    then have "decimal n = [char_of_byte (48 + n)]"
      by (subst decimal.simps) simp
    then show ?thesis
      using True "1.prems" by (simp add: is_digit_def byte_of_char_of_byte)
  next
    case False
    then have eq: "decimal n = decimal (n div 10) @ [char_of_byte (48 + n mod 10)]"
      by (subst decimal.simps) simp
    have "list_all is_digit (decimal (n div 10))"
      using "1.IH" False "1.prems" by simp
    moreover have "is_digit (char_of_byte (48 + n mod 10))"
      by (simp add: is_digit_def byte_of_char_of_byte)
    ultimately show ?thesis
      using eq by simp
  qed
qed

lemma is_digit_not_sign: "is_digit c \<Longrightarrow> c \<noteq> CHR ''+'' \<and> c \<noteq> CHR ''-''"
  by (auto simp: is_digit_def byte_of_def)

text \<open>\<^verbatim>\<open>strconv.Itoa\<close> writes a decimal numeral: the API version header holds an integer.\<close>

lemma Itoa_numeral: "decimal_numeral (strconv_Itoa i)"
proof -
  have pos: "decimal_numeral (decimal n)" if "0 \<le> n" for n
  proof -
    have d: "list_all is_digit (decimal n)"
      using that by (rule decimal_digits)
    obtain c cs where cs: "decimal n = c # cs"
      using decimal_not_Nil [of n] by (cases "decimal n") auto
    then have "is_digit c"
      using d by simp
    then have "unsigned_part (decimal n) = decimal n"
      using cs is_digit_not_sign [of c] by (simp add: unsigned_part_def)
    then show ?thesis
      using d cs by (simp add: decimal_numeral_def)
  qed
  show ?thesis
  proof (cases "i < 0")
    case True
    then have "unsigned_part (strconv_Itoa i) = decimal (- i)"
      by (simp add: strconv_Itoa_def unsigned_part_def)
    then show ?thesis
      using True decimal_digits [of "- i"] decimal_not_Nil [of "- i"]
      by (simp add: decimal_numeral_def)
  next
    case False
    then show ?thesis
      using pos [of i] by (simp add: strconv_Itoa_def)
  qed
qed

text \<open>
  C3. Every failure ends in one log entry and a return. When the report cannot be
  serialized or the request cannot be built, nothing is sent; when the transport fails,
  the request was tried once and is not tried again. The function has no result, so no
  error can reach its caller.
\<close>

theorem postCertIssueReport_absorbs_errors:
  "(json_Marshal lib report = Inl err \<longrightarrow>
      postCertIssueReport v lib report ua =
        [Log ErrorLevel ''error'' (ErrorValue err) ''Failed to marshal TLS report''] \<and>
      sent (postCertIssueReport v lib report ua) = []) \<and>
   (json_Marshal lib report = Inr b \<and>
    http_NewRequest (url_Parse lib) ''POST'' TLSReportURI b = Inl err \<longrightarrow>
      postCertIssueReport v lib report ua =
        [Log ErrorLevel ''error'' (ErrorValue err) ''Failed to create http request''] \<and>
      sent (postCertIssueReport v lib report ua) = []) \<and>
   (json_Marshal lib report = Inr b \<and>
    http_NewRequest (url_Parse lib) ''POST'' TLSReportURI b = Inr req0 \<and>
    client_Do lib (set_headers v report ua req0) = Inl err \<longrightarrow>
      postCertIssueReport v lib report ua =
        [Log WarnLevel ''request'' (RequestValue (set_headers v report ua req0))
           ''Reporting TLS mismatch'',
         Do (set_headers v report ua req0),
         Log ErrorLevel ''error'' (ErrorValue err) ''Failed to report TLS mismatch''] \<and>
      sent (postCertIssueReport v lib report ua) = [set_headers v report ua req0] \<and>
      body_events (postCertIssueReport v lib report ua) = [])"
  by (simp add: postCertIssueReport_def Let_def)

theorem postCertIssueReport_absorbs_errors_witness:
  "json_Marshal lib_marshal_fails example_report = Inl ''json: unsupported value'' \<and>
   postCertIssueReport 3 lib_marshal_fails example_report ''Bridge/1.5'' =
     [Log ErrorLevel ''error'' (ErrorValue ''json: unsupported value'')
        ''Failed to marshal TLS report''] \<and>
   json_Marshal lib_request_fails example_report = Inr ''{}'' \<and>
   http_NewRequest (url_Parse lib_request_fails) ''POST'' TLSReportURI ''{}''
     = Inl ''parse: invalid URL'' \<and>
   postCertIssueReport 3 lib_request_fails example_report ''Bridge/1.5'' =
     [Log ErrorLevel ''error'' (ErrorValue ''parse: invalid URL'')
        ''Failed to create http request''] \<and>
   json_Marshal lib_transport_fails example_report = Inr ''{}'' \<and>
   http_NewRequest (url_Parse lib_transport_fails) ''POST'' TLSReportURI ''{}''
     = Inr \<lparr> Method = ''POST'', URL = TLSReportURI, Header = Map.empty, Body = ''{}'' \<rparr> \<and>
   client_Do lib_transport_fails (report_request 3 example_report ''Bridge/1.5'' ''{}'')
     = Inl ''dial tcp: connection refused'' \<and>
   sent (postCertIssueReport 3 lib_transport_fails example_report ''Bridge/1.5'')
     = [report_request 3 example_report ''Bridge/1.5'' ''{}''] \<and>
   body_events (postCertIssueReport 3 lib_transport_fails example_report ''Bridge/1.5'') = []"
proof -
  have m1: "json_Marshal lib_marshal_fails example_report = Inl ''json: unsupported value''"
    by (simp add: lib_marshal_fails_def)
  have m2: "json_Marshal lib_request_fails example_report = Inr ''{}''"
    by (simp add: lib_request_fails_def)
  have r2: "http_NewRequest (url_Parse lib_request_fails) ''POST'' TLSReportURI ''{}''
      = Inl ''parse: invalid URL''"
    by (simp add: http_NewRequest_POST lib_request_fails_def)
  have m3: "json_Marshal lib_transport_fails example_report = Inr ''{}''"
    by (simp add: lib_transport_fails_def)
  have r3: "http_NewRequest (url_Parse lib_transport_fails) ''POST'' TLSReportURI ''{}''
      = Inr \<lparr> Method = ''POST'', URL = TLSReportURI, Header = Map.empty, Body = ''{}'' \<rparr>"
    by (simp add: http_NewRequest_POST lib_transport_fails_def)
  have d3: "client_Do lib_transport_fails
      (set_headers 3 example_report ''Bridge/1.5''
         \<lparr> Method = ''POST'', URL = TLSReportURI, Header = Map.empty, Body = ''{}'' \<rparr>)
      = Inl ''dial tcp: connection refused''"
    by (simp add: lib_transport_fails_def)
  note t = postCertIssueReport_absorbs_errors
  have c1: "postCertIssueReport 3 lib_marshal_fails example_report ''Bridge/1.5'' =
      [Log ErrorLevel ''error'' (ErrorValue ''json: unsupported value'')
         ''Failed to marshal TLS report'']"
    using t [of lib_marshal_fails example_report "''json: unsupported value''" 3
        "''Bridge/1.5''"] m1 by blast
  have c2: "postCertIssueReport 3 lib_request_fails example_report ''Bridge/1.5'' =
      [Log ErrorLevel ''error'' (ErrorValue ''parse: invalid URL'')
         ''Failed to create http request'']"
    using t [of lib_request_fails example_report "''parse: invalid URL''" 3
        "''Bridge/1.5''" "''{}''"] m2 r2 by blast
  have c3: "sent (postCertIssueReport 3 lib_transport_fails example_report ''Bridge/1.5'')
        = [set_headers 3 example_report ''Bridge/1.5''
             \<lparr> Method = ''POST'', URL = TLSReportURI, Header = Map.empty, Body = ''{}'' \<rparr>] \<and>
      body_events (postCertIssueReport 3 lib_transport_fails example_report ''Bridge/1.5'') = []"
    using t [of lib_transport_fails example_report "''dial tcp: connection refused''" 3
        "''Bridge/1.5''" "''{}''"
        "\<lparr> Method = ''POST'', URL = TLSReportURI, Header = Map.empty, Body = ''{}'' \<rparr>"]
      m3 r3 d3 by blast
  show ?thesis
    using m1 c1 m2 r2 c2 m3 r3 d3 c3 by (simp add: report_request_def)
qed

text \<open>
  C7. Once the client has returned a response, the call logs it, logs a diagnostic when
  its status is not 200, and then reads the body to its end and closes it: these are its
  last two effects, whatever the status code is.
\<close>

theorem postCertIssueReport_drains_and_closes:
  assumes "json_Marshal lib report = Inr b"
    and "http_NewRequest (url_Parse lib) ''POST'' TLSReportURI b = Inr req0"
    and "client_Do lib (set_headers v report ua req0) = Inr res"
  shows "(\<exists>before. postCertIssueReport v lib report ua = before @ [ReadAll res, Close res]) \<and>
         body_events (postCertIssueReport v lib report ua) = [ReadAll res, Close res] \<and>
         logged ''response'' (postCertIssueReport v lib report ua) = [ResponseValue res] \<and>
         Log ErrorLevel ''response'' (ResponseValue res) ''Reported TLS mismatch''
           \<in> set (postCertIssueReport v lib report ua) \<and>
         (StatusCode res \<noteq> 200 \<longrightarrow>
            Log ErrorLevel ''status'' (IntValue 200) ''StatusCode was not OK''
              \<in> set (postCertIssueReport v lib report ua))"
  using assms by (simp add: postCertIssueReport_def Let_def http_StatusOK_def)

theorem postCertIssueReport_drains_and_closes_witness:
  "json_Marshal (lib_responds 503) example_report = Inr ''{}'' \<and>
   http_NewRequest (url_Parse (lib_responds 503)) ''POST'' TLSReportURI ''{}''
     = Inr \<lparr> Method = ''POST'', URL = TLSReportURI, Header = Map.empty, Body = ''{}'' \<rparr> \<and>
   client_Do (lib_responds 503) (report_request 3 example_report ''Bridge/1.5'' ''{}'')
     = Inr \<lparr> StatusCode = 503, res_Body = ''body'' \<rparr> \<and>
   body_events (postCertIssueReport 3 (lib_responds 503) example_report ''Bridge/1.5'')
     = [ReadAll \<lparr> StatusCode = 503, res_Body = ''body'' \<rparr>,
        Close \<lparr> StatusCode = 503, res_Body = ''body'' \<rparr>] \<and>
   Log ErrorLevel ''status'' (IntValue 200) ''StatusCode was not OK''
     \<in> set (postCertIssueReport 3 (lib_responds 503) example_report ''Bridge/1.5'')"
proof -
  have m: "json_Marshal (lib_responds 503) example_report = Inr ''{}''"
    by (simp add: lib_responds_def)
  have r: "http_NewRequest (url_Parse (lib_responds 503)) ''POST'' TLSReportURI ''{}''
      = Inr \<lparr> Method = ''POST'', URL = TLSReportURI, Header = Map.empty, Body = ''{}'' \<rparr>"
    by (simp add: http_NewRequest_POST lib_responds_def)
  have d: "client_Do (lib_responds 503)
      (set_headers 3 example_report ''Bridge/1.5''
         \<lparr> Method = ''POST'', URL = TLSReportURI, Header = Map.empty, Body = ''{}'' \<rparr>)
      = Inr \<lparr> StatusCode = 503, res_Body = ''body'' \<rparr>"
    by (simp add: lib_responds_def)
  show ?thesis
    using m r d postCertIssueReport_drains_and_closes [OF m r d]
    by (simp add: report_request_def)
qed

text \<open>
  C8. The one request the call can hand to the client is a POST to the fixed report URI
  whose body is the serialized report and whose header map holds four keys: the content
  type, the caller's user agent, the API version as a decimal numeral, and the
  application version of the report.
\<close>

theorem postCertIssueReport_request:
  assumes "Do req \<in> set (postCertIssueReport v lib report ua)"
  shows "Method req = ''POST'' \<and>
         URL req = ''https://reports.protonmail.ch/reports/tls'' \<and>
         json_Marshal lib report = Inr (Body req) \<and>
         Header req =
           [''Content-Type'' \<mapsto> [''application/json''],
            ''User-Agent'' \<mapsto> [ua],
            ''X-Pm-Apiversion'' \<mapsto> [strconv_Itoa v],
            ''X-Pm-Appversion'' \<mapsto> [AppVersion report]] \<and>
         dom (Header req) =
           {''Content-Type'', ''User-Agent'', ''X-Pm-Apiversion'', ''X-Pm-Appversion''} \<and>
         Header_Get (Header req) ''Content-Type'' = ''application/json'' \<and>
         Header_Get (Header req) ''User-Agent'' = ua \<and>
         Header_Get (Header req) ''x-pm-apiversion'' = strconv_Itoa v \<and>
         decimal_numeral (Header_Get (Header req) ''x-pm-apiversion'') \<and>
         Header_Get (Header req) ''x-pm-appversion'' = AppVersion report \<and>
         sent (postCertIssueReport v lib report ua) = [req]"
proof -
  have mem: "req \<in> set (sent (postCertIssueReport v lib report ua))"
    using assms by (simp add: Do_in_set_sent)
  obtain b where b: "json_Marshal lib report = Inr b"
    using mem by (cases "json_Marshal lib report") (simp_all add: sent_postCertIssueReport)
  have p: "url_Parse lib TLSReportURI = None"
    using mem b by (cases "url_Parse lib TLSReportURI") (simp_all add: sent_postCertIssueReport)
  have req: "req = report_request v report ua b"
    using mem b p by (simp add: sent_postCertIssueReport)
  have h: "Header req =
      [''Content-Type'' \<mapsto> [''application/json''],
       ''User-Agent'' \<mapsto> [ua],
       ''X-Pm-Apiversion'' \<mapsto> [strconv_Itoa v],
       ''X-Pm-Appversion'' \<mapsto> [AppVersion report]]"
    unfolding req by (rule Header_report_request)
  have g: "Header_Get (Header req) ''Content-Type'' = ''application/json''"
    "Header_Get (Header req) ''User-Agent'' = ua"
    "Header_Get (Header req) ''x-pm-apiversion'' = strconv_Itoa v"
    "Header_Get (Header req) ''x-pm-appversion'' = AppVersion report"
    unfolding h by (simp_all add: Header_Get_def canonical_keys)
  have d: "dom (Header req) =
      {''Content-Type'', ''User-Agent'', ''X-Pm-Apiversion'', ''X-Pm-Appversion''}"
    unfolding h by auto
  have s: "sent (postCertIssueReport v lib report ua) = [req]"
    using b p req by (simp add: sent_postCertIssueReport)
  have f: "Method req = ''POST''" "URL req = ''https://reports.protonmail.ch/reports/tls''"
    "json_Marshal lib report = Inr (Body req)"
    using b unfolding req by (simp_all add: report_request_fields TLSReportURI_def)
  show ?thesis
    using f h d g s Itoa_numeral [of v] by simp
qed

theorem postCertIssueReport_request_witness:
  "Do (report_request 3 example_report ''Bridge/1.5'' ''{}'')
     \<in> set (postCertIssueReport 3 (lib_responds 200) example_report ''Bridge/1.5'') \<and>
   Method (report_request 3 example_report ''Bridge/1.5'' ''{}'') = ''POST'' \<and>
   URL (report_request 3 example_report ''Bridge/1.5'' ''{}'')
     = ''https://reports.protonmail.ch/reports/tls'' \<and>
   Header_Get (Header (report_request 3 example_report ''Bridge/1.5'' ''{}'')) ''User-Agent''
     = ''Bridge/1.5'' \<and>
   Header_Get (Header (report_request 3 example_report ''Bridge/1.5'' ''{}''))
     ''x-pm-apiversion'' = ''3'' \<and>
   Header_Get (Header (report_request 3 example_report ''Bridge/1.5'' ''{}''))
     ''x-pm-appversion'' = ''1.0.0''"
proof -
  have m: "json_Marshal (lib_responds 200) example_report = Inr ''{}''"
    by (simp add: lib_responds_def)
  have p: "url_Parse (lib_responds 200) TLSReportURI = None"
    by (simp add: lib_responds_def)
  have d: "client_Do (lib_responds 200) (report_request 3 example_report ''Bridge/1.5'' ''{}'')
      = Inr \<lparr> StatusCode = 200, res_Body = ''body'' \<rparr>"
    by (simp add: lib_responds_def)
  have mem: "Do (report_request 3 example_report ''Bridge/1.5'' ''{}'')
      \<in> set (postCertIssueReport 3 (lib_responds 200) example_report ''Bridge/1.5'')"
    by (simp add: post_response [OF m p d])
  have i: "strconv_Itoa 3 = ''3''"
    by code_simp
  have a: "AppVersion example_report = ''1.0.0''"
    by (simp add: example_report_def NewTLSReport_def)
  from postCertIssueReport_request [OF mem]
  have g: "Method (report_request 3 example_report ''Bridge/1.5'' ''{}'') = ''POST''"
    "URL (report_request 3 example_report ''Bridge/1.5'' ''{}'')
       = ''https://reports.protonmail.ch/reports/tls''"
    "Header_Get (Header (report_request 3 example_report ''Bridge/1.5'' ''{}'')) ''User-Agent''
       = ''Bridge/1.5''"
    "Header_Get (Header (report_request 3 example_report ''Bridge/1.5'' ''{}''))
       ''x-pm-apiversion'' = strconv_Itoa 3"
    "Header_Get (Header (report_request 3 example_report ''Bridge/1.5'' ''{}''))
       ''x-pm-appversion'' = AppVersion example_report"
    by blast+
  show ?thesis
    using mem g i a by simp
qed

text \<open>
  C10. When the status of the response is not 200, the value logged under the key
  \<^verbatim>\<open>status\<close> is the constant 200, not the status code that was received: the code passes
  \<^verbatim>\<open>http.StatusOK\<close> to \<^verbatim>\<open>WithField\<close>.
\<close>

theorem postCertIssueReport_logs_constant_status:
  assumes "json_Marshal lib report = Inr b"
    and "http_NewRequest (url_Parse lib) ''POST'' TLSReportURI b = Inr req0"
    and "client_Do lib (set_headers v report ua req0) = Inr res"
    and "StatusCode res \<noteq> 200"
  shows "logged ''status'' (postCertIssueReport v lib report ua) = [IntValue 200] \<and>
         IntValue (StatusCode res) \<notin> set (logged ''status'' (postCertIssueReport v lib report ua)) \<and>
         Log ErrorLevel ''status'' (IntValue 200) ''StatusCode was not OK''
           \<in> set (postCertIssueReport v lib report ua)"
  using assms by (simp add: postCertIssueReport_def Let_def http_StatusOK_def)

theorem postCertIssueReport_logs_constant_status_witness:
  "json_Marshal (lib_responds 500) example_report = Inr ''{}'' \<and>
   http_NewRequest (url_Parse (lib_responds 500)) ''POST'' TLSReportURI ''{}''
     = Inr \<lparr> Method = ''POST'', URL = TLSReportURI, Header = Map.empty, Body = ''{}'' \<rparr> \<and>
   client_Do (lib_responds 500) (report_request 3 example_report ''Bridge/1.5'' ''{}'')
     = Inr \<lparr> StatusCode = 500, res_Body = ''body'' \<rparr> \<and>
   StatusCode \<lparr> StatusCode = 500, res_Body = ''body'' \<rparr> \<noteq> 200 \<and>
   logged ''status'' (postCertIssueReport 3 (lib_responds 500) example_report ''Bridge/1.5'')
     = [IntValue 200]"
proof -
  have m: "json_Marshal (lib_responds 500) example_report = Inr ''{}''"
    by (simp add: lib_responds_def)
  have r: "http_NewRequest (url_Parse (lib_responds 500)) ''POST'' TLSReportURI ''{}''
      = Inr \<lparr> Method = ''POST'', URL = TLSReportURI, Header = Map.empty, Body = ''{}'' \<rparr>"
    by (simp add: http_NewRequest_POST lib_responds_def)
  have d: "client_Do (lib_responds 500)
      (set_headers 3 example_report ''Bridge/1.5''
         \<lparr> Method = ''POST'', URL = TLSReportURI, Header = Map.empty, Body = ''{}'' \<rparr>)
      = Inr \<lparr> StatusCode = 500, res_Body = ''body'' \<rparr>"
    by (simp add: lib_responds_def)
  have s: "StatusCode \<lparr> StatusCode = 500, res_Body = ''body'' \<rparr> \<noteq> 200"
    by simp
  show ?thesis
    using m r d postCertIssueReport_logs_constant_status [OF m r d s]
    by (simp add: report_request_def)
qed

section \<open>Properties of encoding/json\<close>



























































































end
